theory Spec2Isabelle
  imports Main
begin

section \<open>JavaScript values used by the evaluation setup\<close>

text \<open>
  JSON data as the program holds it after \<^verbatim>\<open>JSON.parse\<close> or \<^verbatim>\<open>response.json()\<close>,
  and as a test suite's prompt collection contains it. Numbers are the integral ones
  (token counts, numeric literals); an object is the list of its own properties in
  enumeration order, with pairwise distinct keys.
\<close>

datatype json =
    JNull
  | JBool bool
  | JNum int
  | JStr string
  | JArr "json list"
  | JObj "(string \<times> json) list"

text \<open>The result of reading a property: \<^verbatim>\<open>undefined\<close> or a value.\<close>

datatype jsval = Undefined | Val json

text \<open>A thrown value: an \<^verbatim>\<open>Error\<close> object with its name and message.\<close>

datatype jserror = JsError (err_name: string) (err_message: string)

text \<open>\<^verbatim>\<open>String(err)\<close>, that is \<^verbatim>\<open>Error.prototype.toString\<close>.\<close>

definition String_err :: "jserror \<Rightarrow> string" where
  "String_err e =
     (if err_message e = [] then err_name e
      else if err_name e = [] then err_message e
      else err_name e @ '': '' @ err_message e)"

subsection \<open>typeof and Array.isArray\<close>

datatype js_type = T_undefined | T_object | T_boolean | T_number | T_string | T_function

fun typeof_json :: "json \<Rightarrow> js_type" where
  "typeof_json JNull = T_object"
| "typeof_json (JBool b) = T_boolean"
| "typeof_json (JNum n) = T_number"
| "typeof_json (JStr s) = T_string"
| "typeof_json (JArr xs) = T_object"
| "typeof_json (JObj kvs) = T_object"

fun Array_isArray :: "json \<Rightarrow> bool" where
  "Array_isArray (JArr xs) = True"
| "Array_isArray v = False"

subsection \<open>JSON.stringify\<close>

fun string_of_nat :: "nat \<Rightarrow> string" where
  "string_of_nat n =
     (if n < 10 then [char_of (48 + n)]
      else string_of_nat (n div 10) @ [char_of (48 + n mod 10)])"

declare string_of_nat.simps [simp del]

definition string_of_int :: "int \<Rightarrow> string" where
  "string_of_int i = (if i < 0 then ''-'' @ string_of_nat (nat (- i)) else string_of_nat (nat i))"

definition hex_digit :: "nat \<Rightarrow> char" where
  "hex_digit d = (if d < 10 then char_of (48 + d) else char_of (87 + d))"

text \<open>The escaping of one code unit inside a JSON string literal.\<close>

definition quote_char :: "char \<Rightarrow> string" where
  "quote_char c =
     (if c = CHR 0x22 then [CHR 0x5C, CHR 0x22]
      else if c = CHR 0x5C then [CHR 0x5C, CHR 0x5C]
      else if c = CHR 0x08 then [CHR 0x5C, CHR ''b'']
      else if c = CHR 0x09 then [CHR 0x5C, CHR ''t'']
      else if c = CHR 0x0A then [CHR 0x5C, CHR ''n'']
      else if c = CHR 0x0C then [CHR 0x5C, CHR ''f'']
      else if c = CHR 0x0D then [CHR 0x5C, CHR ''r'']
      else if (of_char c :: nat) < 32
        then [CHR 0x5C, CHR ''u'', CHR ''0'', CHR ''0'',
              hex_digit (of_char c div 16), hex_digit (of_char c mod 16)]
      else [c])"

definition quote_string :: "string \<Rightarrow> string" where
  "quote_string s = [CHR 0x22] @ concat (map quote_char s) @ [CHR 0x22]"

fun join_comma :: "string list \<Rightarrow> string" where
  "join_comma [] = []"
| "join_comma [x] = x"
| "join_comma (x # y # ys) = x @ '','' @ join_comma (y # ys)"

fun JSON_stringify :: "json \<Rightarrow> string" where
  "JSON_stringify JNull = ''null''"
| "JSON_stringify (JBool b) = (if b then ''true'' else ''false'')"
| "JSON_stringify (JNum n) = string_of_int n"
| "JSON_stringify (JStr s) = quote_string s"
| "JSON_stringify (JArr xs) = ''['' @ join_comma (map JSON_stringify xs) @ '']''"
| "JSON_stringify (JObj kvs) =
     ''{'' @ join_comma (map (\<lambda>kv. quote_string (fst kv) @ '':'' @ JSON_stringify (snd kv)) kvs) @ ''}''"

section \<open>Prompt normalisation (index.ts, evaluate, lines 28-43 and 93-101)\<close>

record PromptEntry =
  raw :: string
  display :: string

text \<open>
  \<^verbatim>\<open>isOpenAIMessagesObjects(arr)\<close>: an array all of whose elements are objects,
  not null and not arrays.
\<close>

definition is_message_object :: "json \<Rightarrow> bool" where
  "is_message_object element \<longleftrightarrow>
     typeof_json element = T_object \<and> element \<noteq> JNull \<and> \<not> Array_isArray element"

fun isOpenAIMessagesObjects :: "json \<Rightarrow> bool" where
  "isOpenAIMessagesObjects (JArr arr) = list_all is_message_object arr"
| "isOpenAIMessagesObjects v = False"

text \<open>The entry built for one element when the elements are mapped one by one.\<close>

definition prompt_entry :: "json \<Rightarrow> PromptEntry" where
  "prompt_entry promptContent =
     (case promptContent of
        JStr s \<Rightarrow> \<lparr>raw = s, display = s\<rparr>
      | _ \<Rightarrow> \<lparr>raw = JSON_stringify promptContent, display = JSON_stringify promptContent\<rparr>)"

text \<open>The \<^verbatim>\<open>prompts\<close> field of the constructed suite, from the suite's prompt array.\<close>

definition normalize_prompts :: "json list \<Rightarrow> PromptEntry list" where
  "normalize_prompts prompts =
     (if isOpenAIMessagesObjects (JArr prompts)
      then [\<lparr>raw = JSON_stringify (JArr prompts), display = JSON_stringify (JArr prompts)\<rparr>]
      else map prompt_entry prompts)"

section \<open>Process environment, logging, failure as a value\<close>

text \<open>\<^verbatim>\<open>process.env\<close>: a variable is absent or holds a string.\<close>

type_synonym env = "string \<rightharpoonup> string"

text \<open>
  \<^verbatim>\<open>process.env.X || d\<close> in a request body: the variable's string when it is set to a
  non-empty string, the default otherwise (the empty string is falsy).
\<close>

definition env_or :: "string option \<Rightarrow> json \<Rightarrow> json" where
  "env_or v d = (case v of None \<Rightarrow> d | Some s \<Rightarrow> if s = [] then d else JStr s)"

text \<open>Truthiness of an optional string, and \<^verbatim>\<open>a || b\<close> on optional strings.\<close>

definition truthy :: "string option \<Rightarrow> bool" where
  "truthy v = (case v of None \<Rightarrow> False | Some s \<Rightarrow> s \<noteq> [])"

definition or_js :: "string option \<Rightarrow> string option \<Rightarrow> string option" where
  "or_js a b = (if truthy a then a else b)"

text \<open>\<^verbatim>\<open>a || d\<close> with a string default, as in \<^verbatim>\<open>modelName || 'gpt-3.5-turbo'\<close>.\<close>

definition str_or :: "string option \<Rightarrow> string \<Rightarrow> string" where
  "str_or v d = (case v of None \<Rightarrow> d | Some s \<Rightarrow> if s = [] then d else s)"

datatype log_level = Debug | Info | Warn | Error

type_synonym log = "(log_level \<times> string) list"

text \<open>A computation that may throw: \<open>Inl\<close> is the thrown error.\<close>

definition bind_err :: "jserror + 'a \<Rightarrow> ('a \<Rightarrow> jserror + 'b) \<Rightarrow> jserror + 'b" where
  "bind_err m f = (case m of Inl e \<Rightarrow> Inl e | Inr x \<Rightarrow> f x)"

text \<open>\<^verbatim>\<open>try { m } catch (err) { h(err) }\<close>\<close>

definition try_catch :: "jserror + 'a \<Rightarrow> (jserror \<Rightarrow> jserror + 'a) \<Rightarrow> jserror + 'a" where
  "try_catch m h = (case m of Inl e \<Rightarrow> h e | Inr x \<Rightarrow> Inr x)"

text \<open>A computation that logs and may throw, and its sequencing: the log is kept up to the throw.\<close>

type_synonym 'a eff = "log \<times> (jserror + 'a)"

definition return_eff :: "'a \<Rightarrow> 'a eff" where
  "return_eff x = ([], Inr x)"

definition throw_eff :: "jserror \<Rightarrow> 'a eff" where
  "throw_eff e = ([], Inl e)"

definition lift_eff :: "jserror + 'a \<Rightarrow> 'a eff" where
  "lift_eff m = ([], m)"

definition bind_eff :: "'a eff \<Rightarrow> ('a \<Rightarrow> 'b eff) \<Rightarrow> 'b eff" where
  "bind_eff m f =
     (case snd m of
        Inl e \<Rightarrow> (fst m, Inl e)
      | Inr x \<Rightarrow> (fst m @ fst (f x), snd (f x)))"

section \<open>Provider adapters of the OpenAI family (part_000, lines 7-180)\<close>

definition DEFAULT_OPENAI_HOST :: string where
  "DEFAULT_OPENAI_HOST = ''api.openai.com''"

record OpenAiGenericProvider =
  modelName :: string
  apiKey :: string
  apiHost :: string

text \<open>
  The constructor of the generic provider: the key is the argument or the environment's
  \<^verbatim>\<open>OPENAI_API_KEY\<close>; without a key it throws.
\<close>

definition new_OpenAiGenericProvider :: "env \<Rightarrow> string \<Rightarrow> string option \<Rightarrow> jserror + OpenAiGenericProvider" where
  "new_OpenAiGenericProvider penv name key_arg =
     (case or_js key_arg (penv ''OPENAI_API_KEY'') of
        Some key \<Rightarrow>
          if key = [] then Inl (JsError ''Error''
            ''OpenAI API key is not set. Set OPENAI_API_KEY environment variable or pass it as an argument to the constructor.'')
          else Inr \<lparr>modelName = name, apiKey = key,
                    apiHost = str_or (penv ''OPENAI_API_HOST'') DEFAULT_OPENAI_HOST\<rparr>
      | None \<Rightarrow> Inl (JsError ''Error''
          ''OpenAI API key is not set. Set OPENAI_API_KEY environment variable or pass it as an argument to the constructor.''))"

definition OPENAI_COMPLETION_MODELS :: "string list" where
  "OPENAI_COMPLETION_MODELS =
     [''text-davinci-003'', ''text-davinci-002'', ''text-curie-001'', ''text-babbage-001'',
      ''text-ada-001'']"

definition OPENAI_CHAT_MODELS :: "string list" where
  "OPENAI_CHAT_MODELS =
     [''gpt-4'', ''gpt-4-0314'', ''gpt-4-32k'', ''gpt-4-32k-0314'', ''gpt-3.5-turbo'',
      ''gpt-3.5-turbo-0301'']"

text \<open>
  An adapter instance: one of the two OpenAI classes, or the instance of a custom module's
  default export, of which only the string its \<^verbatim>\<open>id()\<close> returns is kept.
\<close>

datatype ApiProvider =
    OpenAiCompletionProvider OpenAiGenericProvider
  | OpenAiChatCompletionProvider OpenAiGenericProvider
  | CustomApiProvider string

fun provider_id :: "ApiProvider \<Rightarrow> string" where
  "provider_id (OpenAiCompletionProvider self) = ''openai:'' @ modelName self"
| "provider_id (OpenAiChatCompletionProvider self) = ''openai:'' @ modelName self"
| "provider_id (CustomApiProvider i) = i"

text \<open>The subclass constructors warn about a model outside their list, then run the generic one.\<close>

definition new_OpenAiCompletionProvider :: "env \<Rightarrow> string \<Rightarrow> string option \<Rightarrow> ApiProvider eff" where
  "new_OpenAiCompletionProvider penv name key_arg =
     ((if name \<notin> set OPENAI_COMPLETION_MODELS
       then [(Warn, ''Using unknown OpenAI completion model: '' @ name)] else []),
      bind_err (new_OpenAiGenericProvider penv name key_arg) (\<lambda>self. Inr (OpenAiCompletionProvider self)))"

definition new_OpenAiChatCompletionProvider :: "env \<Rightarrow> string \<Rightarrow> string option \<Rightarrow> ApiProvider eff" where
  "new_OpenAiChatCompletionProvider penv name key_arg =
     ((if name \<notin> set OPENAI_CHAT_MODELS
       then [(Warn, ''Using unknown OpenAI chat model: '' @ name)] else []),
      bind_err (new_OpenAiGenericProvider penv name key_arg) (\<lambda>self. Inr (OpenAiChatCompletionProvider self)))"

subsection \<open>Reading properties of a response\<close>

datatype prop_key = Name string | Index nat

definition key_text :: "prop_key \<Rightarrow> string" where
  "key_text k = (case k of Name s \<Rightarrow> s | Index n \<Rightarrow> string_of_nat n)"

fun lookup_prop :: "(string \<times> json) list \<Rightarrow> string \<Rightarrow> jsval" where
  "lookup_prop [] k = Undefined"
| "lookup_prop ((k', v) # kvs) k = (if k' = k then Val v else lookup_prop kvs k)"

text \<open>
  \<^verbatim>\<open>v.name\<close> and \<^verbatim>\<open>v[i]\<close>: reading from \<^verbatim>\<open>undefined\<close> or \<^verbatim>\<open>null\<close> throws a
  TypeError; an absent property reads as \<^verbatim>\<open>undefined\<close>. The property names the
  adapters read (choices, text, message, content, usage and the token counts) are no
  members of the built-in prototypes, so on an array only indices and on a string only
  code-unit indices are found. The TypeError's message is worded as V8 words it.
\<close>

definition get_prop :: "jsval \<Rightarrow> prop_key \<Rightarrow> jserror + jsval" where
  "get_prop v k =
     (case v of
        Undefined \<Rightarrow> Inl (JsError ''TypeError''
          (''Cannot read properties of undefined (reading '' @ [CHR 0x27] @ key_text k @ [CHR 0x27] @ '')''))
      | Val JNull \<Rightarrow> Inl (JsError ''TypeError''
          (''Cannot read properties of null (reading '' @ [CHR 0x27] @ key_text k @ [CHR 0x27] @ '')''))
      | Val (JObj kvs) \<Rightarrow> Inr (lookup_prop kvs (key_text k))
      | Val (JArr xs) \<Rightarrow>
          (case k of Index i \<Rightarrow> Inr (if i < length xs then Val (xs ! i) else Undefined)
                   | Name s \<Rightarrow> Inr Undefined)
      | Val (JStr s) \<Rightarrow>
          (case k of Index i \<Rightarrow> Inr (if i < length s then Val (JStr [s ! i]) else Undefined)
                   | Name n \<Rightarrow> Inr Undefined)
      | Val (JBool b) \<Rightarrow> Inr Undefined
      | Val (JNum n) \<Rightarrow> Inr Undefined)"

fun get_path :: "jsval \<Rightarrow> prop_key list \<Rightarrow> jserror + jsval" where
  "get_path v [] = Inr v"
| "get_path v (k # ks) = bind_err (get_prop v k) (\<lambda>w. get_path w ks)"

subsection \<open>callApi\<close>

record TokenUsage =
  total :: jsval
  prompt :: jsval
  completion :: jsval

text \<open>
  A \<^verbatim>\<open>ProviderResponse\<close> object literal: each key is absent (\<open>None\<close>) or present with
  the value it was given.
\<close>

record ProviderResponse =
  error :: "string option"
  output_val :: "jsval option"
  tokenUsage :: "TokenUsage option"

record request =
  url :: string
  http_method :: string
  headers :: "(string \<times> string) list"
  body :: string

definition tokenUsage_of :: "json \<Rightarrow> jserror + TokenUsage" where
  "tokenUsage_of data =
     bind_err (get_path (Val data) [Name ''usage'', Name ''total_tokens'']) (\<lambda>t.
     bind_err (get_path (Val data) [Name ''usage'', Name ''prompt_tokens'']) (\<lambda>p.
     bind_err (get_path (Val data) [Name ''usage'', Name ''completion_tokens'']) (\<lambda>c.
     Inr \<lparr>total = t, prompt = p, completion = c\<rparr>)))"

text \<open>Lines 63-68: the request payload of the completion variant.\<close>

definition completion_body :: "env \<Rightarrow> OpenAiGenericProvider \<Rightarrow> string \<Rightarrow> json" where
  "completion_body penv self ptext =
     JObj [(''model'', JStr (modelName self)),
           (''prompt'', JStr ptext),
           (''max_tokens'', env_or (penv ''OPENAI_MAX_TOKENS'') (JNum 1024)),
           (''temperature'', env_or (penv ''OPENAI_TEMPERATURE'') (JNum 0))]"

definition openai_request :: "OpenAiGenericProvider \<Rightarrow> string \<Rightarrow> json \<Rightarrow> request" where
  "openai_request self endpoint b =
     \<lparr>url = ''https://'' @ apiHost self @ endpoint,
      http_method = ''POST'',
      headers = [(''Content-Type'', ''application/json''),
                 (''Authorization'', ''Bearer '' @ apiKey self)],
      body = JSON_stringify b\<rparr>"

text \<open>Lines 92-100: the success object built from the response of the completion endpoint.\<close>

definition completion_result :: "json \<Rightarrow> jserror + ProviderResponse" where
  "completion_result data =
     bind_err (get_path (Val data) [Name ''choices'', Index 0, Name ''text'']) (\<lambda>out.
     bind_err (tokenUsage_of data) (\<lambda>u.
     Inr \<lparr>error = None, output_val = Some out, tokenUsage = Some u\<rparr>))"

text \<open>
  \<^verbatim>\<open>OpenAiCompletionProvider.callApi\<close>. The parameter \<open>fetch\<close> is the network: what
  \<^verbatim>\<open>fetchWithTimeout\<close> followed by \<^verbatim>\<open>response.json()\<close> yields for a request, a thrown
  error (connection failure, timeout, unreadable body) or the decoded body.
\<close>

definition completion_callApi ::
  "env \<Rightarrow> (request \<Rightarrow> jserror + json) \<Rightarrow> OpenAiGenericProvider \<Rightarrow> string \<Rightarrow> ProviderResponse eff" where
  "completion_callApi penv fetch self ptext =
     (let b = completion_body penv self ptext;
          log1 = [(Debug, ''Calling OpenAI API: '' @ JSON_stringify b)] in
      case fetch (openai_request self ''/v1/completions'' b) of
        Inl err \<Rightarrow>
          (log1, Inr \<lparr>error = Some (''API call error: '' @ String_err err),
                      output_val = None, tokenUsage = None\<rparr>)
      | Inr data \<Rightarrow>
          (log1 @ [(Debug, [CHR 0x09] @ ''OpenAI API response: '' @ JSON_stringify data)],
           try_catch (completion_result data) (\<lambda>err.
             Inr \<lparr>error = Some (''API response error: '' @ String_err err @ '': '' @ JSON_stringify data),
                  output_val = None, tokenUsage = None\<rparr>)))"

text \<open>
  Lines 127-140: the request payload of the chat variant. The parameter \<open>parse\<close> is
  \<^verbatim>\<open>JSON.parse\<close>: the parsed value, or the SyntaxError it throws.
\<close>

definition chat_messages :: "(string \<Rightarrow> jserror + json) \<Rightarrow> string \<Rightarrow> jserror + json" where
  "chat_messages parse ptext =
     try_catch (parse ptext) (\<lambda>err.
       Inr (JArr [JObj [(''role'', JStr ''user''), (''content'', JStr ptext)]]))"

definition chat_body :: "env \<Rightarrow> OpenAiGenericProvider \<Rightarrow> json \<Rightarrow> json" where
  "chat_body penv self messages =
     JObj [(''model'', JStr (modelName self)),
           (''messages'', messages),
           (''max_tokens'', env_or (penv ''OPENAI_MAX_TOKENS'') (JNum 1024)),
           (''temperature'', env_or (penv ''OPENAI_MAX_TEMPERATURE'') (JNum 0))]"

definition chat_result :: "json \<Rightarrow> jserror + ProviderResponse" where
  "chat_result data =
     bind_err (get_path (Val data) [Name ''choices'', Index 0, Name ''message'', Name ''content'']) (\<lambda>out.
     bind_err (tokenUsage_of data) (\<lambda>u.
     Inr \<lparr>error = None, output_val = Some out, tokenUsage = Some u\<rparr>))"

text \<open>Lines 135-178: the call made with the message list, and what is returned for its outcome.\<close>

definition chat_send ::
  "env \<Rightarrow> (request \<Rightarrow> jserror + json) \<Rightarrow> OpenAiGenericProvider \<Rightarrow> json \<Rightarrow> ProviderResponse eff" where
  "chat_send penv fetch self messages =
     (let b = chat_body penv self messages;
          log1 = [(Debug, ''Calling OpenAI API: '' @ JSON_stringify b)] in
      case fetch (openai_request self ''/v1/chat/completions'' b) of
        Inl err \<Rightarrow>
          (log1, Inr \<lparr>error = Some (''API call error: '' @ String_err err),
                      output_val = None, tokenUsage = None\<rparr>)
      | Inr data \<Rightarrow>
          (log1 @ [(Debug, [CHR 0x09] @ ''OpenAI API response: '' @ JSON_stringify data)],
           try_catch (chat_result data) (\<lambda>err.
             Inr \<lparr>error = Some (''API response error: '' @ String_err err @ '': '' @ JSON_stringify data),
                  output_val = None, tokenUsage = None\<rparr>)))"

text \<open>\<^verbatim>\<open>OpenAiChatCompletionProvider.callApi\<close>, lines 126-179.\<close>

definition chat_callApi ::
  "env \<Rightarrow> (string \<Rightarrow> jserror + json) \<Rightarrow> (request \<Rightarrow> jserror + json) \<Rightarrow>
   OpenAiGenericProvider \<Rightarrow> string \<Rightarrow> ProviderResponse eff" where
  "chat_callApi penv parse fetch self ptext =
     bind_eff (lift_eff (chat_messages parse ptext)) (chat_send penv fetch self)"

section \<open>The provider loader (part_000, lines 182-207)\<close>

record ProviderOptions =
  opt_id :: "string option"
  opt_config :: "(string \<times> json) list"

text \<open>
  What a provider field of a test or of an assertion can hold: nothing, a specification
  string, a configuration object, an adapter instance (a class instance, of type
  \<^verbatim>\<open>object\<close>), or a function, of which its name is kept.
\<close>

datatype provider_val =
    PUndefined
  | PString string
  | POptions ProviderOptions
  | PInstance ApiProvider
  | PFunction string

fun typeof_provider :: "provider_val \<Rightarrow> js_type" where
  "typeof_provider PUndefined = T_undefined"
| "typeof_provider (PString s) = T_string"
| "typeof_provider (POptions opts) = T_object"
| "typeof_provider (PInstance a) = T_object"
| "typeof_provider (PFunction f) = T_function"

fun truthy_provider :: "provider_val \<Rightarrow> bool" where
  "truthy_provider PUndefined = False"
| "truthy_provider (PString s) = (s \<noteq> [])"
| "truthy_provider v = True"

text \<open>\<^verbatim>\<open>s.startsWith(p)\<close>, \<^verbatim>\<open>s.split(c)\<close> and \<^verbatim>\<open>xs[i]\<close> with its \<^verbatim>\<open>undefined\<close>.\<close>

definition startsWith :: "string \<Rightarrow> string \<Rightarrow> bool" where
  "startsWith s p = (take (length p) s = p)"

fun split_on :: "char \<Rightarrow> string \<Rightarrow> string list" where
  "split_on c [] = [[]]"
| "split_on c (x # xs) =
     (if x = c then [] # split_on c xs
      else (case split_on c xs of [] \<Rightarrow> [[x]] | w # ws \<Rightarrow> (x # w) # ws))"

definition nth_opt :: "'a list \<Rightarrow> nat \<Rightarrow> 'a option" where
  "nth_opt xs i = (if i < length xs then Some (xs ! i) else None)"

text \<open>
  \<^verbatim>\<open>loadApiProvider(providerPath)\<close>. The declared parameter type is \<^verbatim>\<open>string\<close>, but
  index.ts also passes it a function, so the argument is any provider value. The
  parameter \<open>import_default\<close> is the custom module path: what constructing the default
  export of the module at \<^verbatim>\<open>path.join(process.cwd(), providerPath)\<close> yields. A second
  argument, as index.ts passes one, is not a parameter of the function and is ignored.
\<close>

definition loadApiProvider ::
  "env \<Rightarrow> (string \<Rightarrow> jserror + ApiProvider) \<Rightarrow> provider_val \<Rightarrow> ApiProvider eff" where
  "loadApiProvider penv import_default providerPath =
     (case providerPath of
        PString s \<Rightarrow>
          if startsWith s ''openai:'' then
            (let options = split_on CHR '':'' s;
                 modelName = nth_opt options 2 in
             case nth_opt options 1 of
               Some modelType \<Rightarrow>
                 if modelType = ''chat''
                   then new_OpenAiChatCompletionProvider penv (str_or modelName ''gpt-3.5-turbo'') None
                 else if modelType = ''completion''
                   then new_OpenAiCompletionProvider penv (str_or modelName ''text-davinci-003'') None
                 else if modelType \<in> set OPENAI_CHAT_MODELS
                   then new_OpenAiChatCompletionProvider penv modelType None
                 else if modelType \<in> set OPENAI_COMPLETION_MODELS
                   then new_OpenAiCompletionProvider penv modelType None
                 else throw_eff (JsError ''Error''
                   (''Unknown OpenAI model type: '' @ modelType
                    @ ''. Use one of the following providers: openai:chat:<model name>, openai:completion:<model name>''))
             | None \<Rightarrow> throw_eff (JsError ''Error''
                   (''Unknown OpenAI model type: undefined''
                    @ ''. Use one of the following providers: openai:chat:<model name>, openai:completion:<model name>'')))
          else lift_eff (import_default s)
      | PUndefined \<Rightarrow>
          throw_eff (JsError ''TypeError [ERR_INVALID_ARG_TYPE]''
            (''The '' @ [CHR 0x22] @ ''path'' @ [CHR 0x22]
             @ '' argument must be of type string. Received undefined''))
      | _ \<Rightarrow> throw_eff (JsError ''TypeError'' ''providerPath?.startsWith is not a function''))"

section \<open>The evaluation setup (index.ts, evaluate)\<close>

record Assertion =
  atype :: string
  aprovider :: provider_val

record TestOptions =
  oprovider :: provider_val

record TestCase =
  description :: "string option"
  options :: "TestOptions option"
  assert :: "Assertion list option"

text \<open>\<^verbatim>\<open>casted.id\<close>: the \<^verbatim>\<open>id\<close> property of a provider value; on an adapter instance it is the method.\<close>

fun prop_id :: "provider_val \<Rightarrow> provider_val" where
  "prop_id (POptions opts) = (case opt_id opts of None \<Rightarrow> PUndefined | Some s \<Rightarrow> PString s)"
| "prop_id (PInstance a) = PFunction ''id''"
| "prop_id v = PUndefined"

text \<open>
  \<^verbatim>\<open>invariant(condition, message)\<close> of the library tiny-invariant. On a falsy condition it
  throws an \<^verbatim>\<open>Error\<close>: with \<^verbatim>\<open>process.env.NODE_ENV\<close> equal to \<^verbatim>\<open>production\<close> the bare
  prefix \<^verbatim>\<open>Invariant failed\<close>, otherwise the prefix followed by the message when there
  is one.
\<close>

definition invariant :: "env \<Rightarrow> bool \<Rightarrow> string \<Rightarrow> unit eff" where
  "invariant penv condition message =
     (if condition then return_eff ()
      else if penv ''NODE_ENV'' = Some ''production''
        then throw_eff (JsError ''Error'' ''Invariant failed'')
      else throw_eff (JsError ''Error''
             (if message = [] then ''Invariant failed'' else ''Invariant failed: '' @ message)))"

text \<open>A loop body run over a list in order, stopping at the first throw.\<close>

fun mapM_eff :: "('a \<Rightarrow> 'b eff) \<Rightarrow> 'a list \<Rightarrow> 'b list eff" where
  "mapM_eff f [] = return_eff []"
| "mapM_eff f (x # xs) =
     bind_eff (f x) (\<lambda>y. bind_eff (mapM_eff f xs) (\<lambda>ys. return_eff (y # ys)))"

text \<open>Lines 48-50: the test's own override provider.\<close>

definition resolve_test_provider ::
  "env \<Rightarrow> (string \<Rightarrow> jserror + ApiProvider) \<Rightarrow> TestCase \<Rightarrow> TestCase eff" where
  "resolve_test_provider penv import_default test =
     (case options test of
        None \<Rightarrow> return_eff test
      | Some opts \<Rightarrow>
          if truthy_provider (oprovider opts) \<and> typeof_provider (oprovider opts) = T_function
          then bind_eff (loadApiProvider penv import_default (oprovider opts))
                 (\<lambda>p. return_eff (test\<lparr>options := Some (opts\<lparr>oprovider := PInstance p\<rparr>)\<rparr>))
          else return_eff test)"

text \<open>Lines 53-63: one assertion's override provider.\<close>

definition resolve_assertion ::
  "env \<Rightarrow> (string \<Rightarrow> jserror + ApiProvider) \<Rightarrow> Assertion \<Rightarrow> Assertion eff" where
  "resolve_assertion penv import_default assertion =
     (if truthy_provider (aprovider assertion) then
        if typeof_provider (aprovider assertion) = T_object then
          (let casted_id = prop_id (aprovider assertion) in
           bind_eff (invariant penv (truthy_provider casted_id) ''Provider object must have an id'') (\<lambda>_.
           bind_eff (loadApiProvider penv import_default casted_id) (\<lambda>p.
           return_eff (assertion\<lparr>aprovider := PInstance p\<rparr>))))
        else if typeof_provider (aprovider assertion) = T_string then
          bind_eff (loadApiProvider penv import_default (aprovider assertion)) (\<lambda>p.
          return_eff (assertion\<lparr>aprovider := PInstance p\<rparr>))
        else return_eff assertion
      else return_eff assertion)"

text \<open>Lines 47-66: the body of the loop over the tests, and the loop.\<close>

definition resolve_test ::
  "env \<Rightarrow> (string \<Rightarrow> jserror + ApiProvider) \<Rightarrow> TestCase \<Rightarrow> TestCase eff" where
  "resolve_test penv import_default test =
     bind_eff (resolve_test_provider penv import_default test) (\<lambda>test1.
       case assert test1 of
         None \<Rightarrow> return_eff test1
       | Some assertions \<Rightarrow>
           bind_eff (mapM_eff (resolve_assertion penv import_default) assertions) (\<lambda>assertions'.
           return_eff (test1\<lparr>assert := Some assertions'\<rparr>)))"

definition resolve_nested_providers ::
  "env \<Rightarrow> (string \<Rightarrow> jserror + ApiProvider) \<Rightarrow> TestCase list option \<Rightarrow> TestCase list option eff" where
  "resolve_nested_providers penv import_default tests_opt =
     (case tests_opt of
        None \<Rightarrow> return_eff None
      | Some ts \<Rightarrow> bind_eff (mapM_eff (resolve_test penv import_default) ts) (\<lambda>ts'. return_eff (Some ts')))"

datatype output_path = NoOutputPath | OutputPath string | OutputPaths "string list"

datatype tests_spec = NoTests | TestsPath string | TestsInline "TestCase list"

record EvaluateTestSuite =
  providers :: "provider_val list"
  tests :: tests_spec
  prompts :: "json list"
  nunjucksFilters :: "(string \<times> string) list option"
  outputPath :: output_path
  writeLatestResults :: bool
  env :: "env option"

text \<open>
  The constructed suite: the given suite's fields (\<open>spread\<close>), with the providers, tests,
  filters and prompts replaced by the loaded ones.
\<close>

record TestSuite =
  spread :: EvaluateTestSuite
  loaded_providers :: "ApiProvider list"
  loaded_tests :: "TestCase list option"
  loaded_filters :: "(string \<times> string) list"
  normalized_prompts :: "PromptEntry list"

record EvaluateOptions =
  cache :: "bool option"
  maxConcurrency :: "nat option"

text \<open>
  The collaborators evaluate calls and whose code is elsewhere: each is a parameter, and
  each call returns or throws. \<open>loadApiProviders\<close> (the plural) is imported by index.ts
  from the providers module and is not among the functions of part_000.
\<close>

record 'r externals =
  loadApiProviders :: "provider_val list \<Rightarrow> env option \<Rightarrow> jserror + ApiProvider list"
  readTests :: "tests_spec \<Rightarrow> jserror + TestCase list option"
  readFilters :: "(string \<times> string) list \<Rightarrow> jserror + (string \<times> string) list"
  import_module :: "string \<Rightarrow> jserror + ApiProvider"
  disableCache :: "jserror + unit"
  maybeShowNotice :: "jserror + unit"
  doEvaluate :: "TestSuite \<Rightarrow> EvaluateOptions \<Rightarrow> jserror + 'r"
  writeOutput :: "string \<Rightarrow> 'r \<Rightarrow> EvaluateTestSuite \<Rightarrow> jserror + unit"
  writeMultipleOutputs :: "string list \<Rightarrow> 'r \<Rightarrow> EvaluateTestSuite \<Rightarrow> jserror + unit"
  ext_writeLatestResults :: "'r \<Rightarrow> EvaluateTestSuite \<Rightarrow> jserror + unit"
  telemetry_send :: "jserror + unit"

text \<open>Lines 77-83: the output path, when it is truthy, is one string or an array.\<close>

definition write_outputs :: "'r externals \<Rightarrow> EvaluateTestSuite \<Rightarrow> 'r \<Rightarrow> jserror + unit" where
  "write_outputs ext testSuite ret =
     (case outputPath testSuite of
        NoOutputPath \<Rightarrow> Inr ()
      | OutputPath path \<Rightarrow> if path = [] then Inr () else writeOutput ext path ret testSuite
      | OutputPaths paths \<Rightarrow> writeMultipleOutputs ext paths ret testSuite)"

text \<open>Lines 17-91.\<close>

definition evaluate ::
  "'r externals \<Rightarrow> env \<Rightarrow> EvaluateTestSuite \<Rightarrow> EvaluateOptions \<Rightarrow> 'r eff" where
  "evaluate ext penv testSuite opts =
     bind_eff (lift_eff (loadApiProviders ext (providers testSuite) (env testSuite))) (\<lambda>ps.
     bind_eff (lift_eff (readTests ext (tests testSuite))) (\<lambda>ts.
     bind_eff (lift_eff (readFilters ext
        (case nunjucksFilters testSuite of None \<Rightarrow> [] | Some fs \<Rightarrow> fs))) (\<lambda>filters.
     bind_eff (resolve_nested_providers penv (import_module ext) ts) (\<lambda>ts'.
     let constructedTestSuite =
           \<lparr>spread = testSuite, loaded_providers = ps, loaded_tests = ts',
            loaded_filters = filters,
            normalized_prompts = normalize_prompts (prompts testSuite)\<rparr> in
     bind_eff (lift_eff (if cache opts = Some False then disableCache ext else Inr ())) (\<lambda>_.
     bind_eff (lift_eff (maybeShowNotice ext)) (\<lambda>_.
     bind_eff (lift_eff (doEvaluate ext constructedTestSuite opts)) (\<lambda>ret.
     bind_eff (lift_eff (write_outputs ext testSuite ret)) (\<lambda>_.
     bind_eff (lift_eff (if writeLatestResults testSuite
                         then ext_writeLatestResults ext ret testSuite else Inr ())) (\<lambda>_.
     bind_eff (lift_eff (telemetry_send ext)) (\<lambda>_.
     return_eff ret))))))))))"

section \<open>Concrete inputs\<close>

definition example_provider :: OpenAiGenericProvider where
  "example_provider = \<lparr>modelName = ''gpt-4'', apiKey = ''sk-1'', apiHost = ''api.openai.com''\<rparr>"

definition example_turns :: json where
  "example_turns = JArr [JObj [(''role'', JStr ''system''), (''content'', JStr ''Be brief'')]]"

text \<open>
  A parser that agrees with \<^verbatim>\<open>JSON.parse\<close> on three prompts: the serialisation of
  \<open>example_turns\<close>, the text \<^verbatim>\<open>42\<close> (a JSON number) and anything that is not JSON.
\<close>

definition example_parse :: "string \<Rightarrow> jserror + json" where
  "example_parse s =
     (if s = JSON_stringify example_turns then Inr example_turns
      else if s = ''42'' then Inr (JNum 42)
      else Inl (JsError ''SyntaxError'' ''Unexpected token''))"

text \<open>Response bodies: one with no choice at all, two whose first choice lacks the text.\<close>

definition empty_choices :: json where
  "empty_choices = JObj [(''choices'', JArr []), (''usage'', JObj [(''total_tokens'', JNum 0)])]"

definition missing_text :: json where
  "missing_text = JObj [(''choices'', JArr [JObj [(''index'', JNum 0)]]), (''usage'', JObj [])]"

definition missing_content :: json where
  "missing_content =
     JObj [(''choices'', JArr [JObj [(''message'', JObj [(''role'', JStr ''assistant'')])]]),
           (''usage'', JObj [])]"

text \<open>Collaborators that all succeed, except that writing one output file has the given outcome.\<close>

definition example_externals :: "(jserror + unit) \<Rightarrow> nat externals" where
  "example_externals write_outcome =
     \<lparr>loadApiProviders = (\<lambda>specs e. Inr []),
      readTests = (\<lambda>t. Inr None),
      readFilters = (\<lambda>fs. Inr fs),
      import_module = (\<lambda>s. Inr (CustomApiProvider s)),
      disableCache = Inr (),
      maybeShowNotice = Inr (),
      doEvaluate = (\<lambda>suite opts. Inr 42),
      writeOutput = (\<lambda>path ret suite. write_outcome),
      writeMultipleOutputs = (\<lambda>paths ret suite. Inr ()),
      ext_writeLatestResults = (\<lambda>ret suite. Inr ()),
      telemetry_send = Inr ()\<rparr>"

definition example_suite :: EvaluateTestSuite where
  "example_suite =
     \<lparr>providers = [PString ''openai:chat:gpt-4''],
      tests = NoTests,
      prompts = [JStr ''Say hi''],
      nunjucksFilters = None,
      outputPath = OutputPath ''out.json'',
      writeLatestResults = False,
      env = None\<rparr>"

section \<open>Helper facts\<close>

lemmas eff_defs = bind_eff_def return_eff_def throw_eff_def lift_eff_def

lemma string_of_nat_0: "string_of_nat 0 = ''0''"
  by code_simp

section \<open>Properties of the prompt normaliser\<close>

lemma is_message_object_iff: "is_message_object v \<longleftrightarrow> (\<exists>kvs. v = JObj kvs)"
  by (cases v) (simp_all add: is_message_object_def)

text \<open>
  Claim C6. When every element of the prompt collection is a non-array object, the
  normaliser produces exactly one entry whose raw and display are the serialisation of
  the whole collection. Otherwise it produces one entry per element, in order: a string
  element is its own raw and display, any other element is serialised for both. The
  collection \<^verbatim>\<open>["a","b"]\<close> gives two entries, \<^verbatim>\<open>[{a:1},{b:2}]\<close> gives one.
\<close>

theorem normalize_prompts_shapes:
  "((\<forall>v \<in> set ps. \<exists>kvs. v = JObj kvs) \<longrightarrow>
      normalize_prompts ps =
        [\<lparr>raw = JSON_stringify (JArr ps), display = JSON_stringify (JArr ps)\<rparr>])
   \<and> (\<not> (\<forall>v \<in> set ps. \<exists>kvs. v = JObj kvs) \<longrightarrow>
      length (normalize_prompts ps) = length ps
      \<and> (\<forall>i < length ps.
           normalize_prompts ps ! i =
             (case ps ! i of
                JStr s \<Rightarrow> \<lparr>raw = s, display = s\<rparr>
              | v \<Rightarrow> \<lparr>raw = JSON_stringify v, display = JSON_stringify v\<rparr>)))
   \<and> normalize_prompts [JStr ''a'', JStr ''b'']
       = [\<lparr>raw = ''a'', display = ''a''\<rparr>, \<lparr>raw = ''b'', display = ''b''\<rparr>]
   \<and> length (normalize_prompts [JObj [(''a'', JNum 1)], JObj [(''b'', JNum 2)]]) = 1"
proof -
  have all: "list_all is_message_object ps \<longleftrightarrow> (\<forall>v \<in> set ps. \<exists>kvs. v = JObj kvs)"
    by (simp add: list_all_iff is_message_object_iff)
  have one: "(\<forall>v \<in> set ps. \<exists>kvs. v = JObj kvs) \<Longrightarrow>
      normalize_prompts ps =
        [\<lparr>raw = JSON_stringify (JArr ps), display = JSON_stringify (JArr ps)\<rparr>]"
    by (simp add: normalize_prompts_def all)
  have each: "\<not> (\<forall>v \<in> set ps. \<exists>kvs. v = JObj kvs) \<Longrightarrow> normalize_prompts ps = map prompt_entry ps"
    by (auto simp add: normalize_prompts_def all)
  have entry: "prompt_entry v =
      (case v of
         JStr s \<Rightarrow> \<lparr>raw = s, display = s\<rparr>
       | v \<Rightarrow> \<lparr>raw = JSON_stringify v, display = JSON_stringify v\<rparr>)" for v
    by (cases v) (simp_all add: prompt_entry_def)
  have ab: "normalize_prompts [JStr ''a'', JStr ''b'']
       = [\<lparr>raw = ''a'', display = ''a''\<rparr>, \<lparr>raw = ''b'', display = ''b''\<rparr>]"
    by (simp add: normalize_prompts_def is_message_object_def prompt_entry_def)
  have objs: "length (normalize_prompts [JObj [(''a'', JNum 1)], JObj [(''b'', JNum 2)]]) = 1"
    by (simp add: normalize_prompts_def is_message_object_def)
  show ?thesis using one each entry ab objs by simp
qed

theorem normalize_prompts_shapes_witness:
  "normalize_prompts [JObj [(''role'', JStr ''user''), (''content'', JStr ''hi'')]]
     = [\<lparr>raw = JSON_stringify (JArr [JObj [(''role'', JStr ''user''), (''content'', JStr ''hi'')]]),
         display = JSON_stringify (JArr [JObj [(''role'', JStr ''user''), (''content'', JStr ''hi'')]])\<rparr>]
   \<and> normalize_prompts [JStr ''a'', JNum 7] ! 1
       = \<lparr>raw = JSON_stringify (JNum 7), display = JSON_stringify (JNum 7)\<rparr>
   \<and> normalize_prompts [JStr ''a'', JNum 7] ! 0 = \<lparr>raw = ''a'', display = ''a''\<rparr>"
  using normalize_prompts_shapes [of "[JObj [(''role'', JStr ''user''), (''content'', JStr ''hi'')]]"]
        normalize_prompts_shapes [of "[JStr ''a'', JNum 7]"]
  by simp

text \<open>
  Claim C10. On the empty prompt collection the every-element-is-an-object test holds
  vacuously, so the normaliser takes the single-prompt branch and produces exactly one
  entry, whose raw and display are the serialisation \<^verbatim>\<open>[]\<close>, not an empty list.
\<close>

theorem normalize_prompts_empty:
  "isOpenAIMessagesObjects (JArr []) \<and> normalize_prompts [] = [\<lparr>raw = ''[]'', display = ''[]''\<rparr>]"
  by (simp add: normalize_prompts_def)

section \<open>Properties of the provider loader\<close>

lemma split_on_no_sep: "c \<notin> set m \<Longrightarrow> split_on c m = [m]"
  by (induction m) auto

lemma split_on_append: "c \<notin> set a \<Longrightarrow> split_on c (a @ c # b) = a # split_on c b"
  by (induction a) auto

lemma split_openai_chat:
  "CHR '':'' \<notin> set m \<Longrightarrow> split_on CHR '':'' (''openai:chat:'' @ m) = [''openai'', ''chat'', m]"
  using split_on_append [of "CHR '':''" "''openai''" "''chat:'' @ m"]
        split_on_append [of "CHR '':''" "''chat''" m] split_on_no_sep [of "CHR '':''" m]
  by simp

lemma split_openai_completion:
  "CHR '':'' \<notin> set m \<Longrightarrow> split_on CHR '':'' (''openai:completion:'' @ m) = [''openai'', ''completion'', m]"
  using split_on_append [of "CHR '':''" "''openai''" "''completion:'' @ m"]
        split_on_append [of "CHR '':''" "''completion''" m] split_on_no_sep [of "CHR '':''" m]
  by simp

lemma new_generic_with_key:
  "penv ''OPENAI_API_KEY'' = Some k \<Longrightarrow> k \<noteq> [] \<Longrightarrow>
   new_OpenAiGenericProvider penv m None =
     Inr \<lparr>modelName = m, apiKey = k, apiHost = str_or (penv ''OPENAI_API_HOST'') DEFAULT_OPENAI_HOST\<rparr>"
  by (auto simp add: new_OpenAiGenericProvider_def or_js_def truthy_def str_or_def split: option.splits)

text \<open>
  Claim C4, as amended. For every non-empty model name \<open>m\<close> without a colon, and with a
  non-empty \<^verbatim>\<open>OPENAI_API_KEY\<close> in the environment, loading \<^verbatim>\<open>openai:chat:m\<close> and
  \<^verbatim>\<open>openai:completion:m\<close> succeeds with an adapter of the chat, respectively completion,
  class whose \<^verbatim>\<open>id()\<close> is \<^verbatim>\<open>openai:m\<close>; a model outside the family's list only adds
  one warning to the log.
\<close>

theorem loadApiProvider_openai_family:
  assumes "m \<noteq> []" and "CHR '':'' \<notin> set m"
    and "penv ''OPENAI_API_KEY'' = Some k" and "k \<noteq> []"
  shows "loadApiProvider penv imp (PString (''openai:chat:'' @ m)) =
           ((if m \<in> set OPENAI_CHAT_MODELS then []
             else [(Warn, ''Using unknown OpenAI chat model: '' @ m)]),
            Inr (OpenAiChatCompletionProvider
              \<lparr>modelName = m, apiKey = k,
               apiHost = str_or (penv ''OPENAI_API_HOST'') DEFAULT_OPENAI_HOST\<rparr>))
       \<and> loadApiProvider penv imp (PString (''openai:completion:'' @ m)) =
           ((if m \<in> set OPENAI_COMPLETION_MODELS then []
             else [(Warn, ''Using unknown OpenAI completion model: '' @ m)]),
            Inr (OpenAiCompletionProvider
              \<lparr>modelName = m, apiKey = k,
               apiHost = str_or (penv ''OPENAI_API_HOST'') DEFAULT_OPENAI_HOST\<rparr>))
       \<and> provider_id (OpenAiChatCompletionProvider
              \<lparr>modelName = m, apiKey = k,
               apiHost = str_or (penv ''OPENAI_API_HOST'') DEFAULT_OPENAI_HOST\<rparr>) = ''openai:'' @ m
       \<and> provider_id (OpenAiCompletionProvider
              \<lparr>modelName = m, apiKey = k,
               apiHost = str_or (penv ''OPENAI_API_HOST'') DEFAULT_OPENAI_HOST\<rparr>) = ''openai:'' @ m"
proof -
  have chat: "loadApiProvider penv imp (PString (''openai:chat:'' @ m)) =
      new_OpenAiChatCompletionProvider penv m None"
    using assms(1) split_openai_chat [OF assms(2)]
    by (simp add: loadApiProvider_def startsWith_def nth_opt_def str_or_def)
  have compl: "loadApiProvider penv imp (PString (''openai:completion:'' @ m)) =
      new_OpenAiCompletionProvider penv m None"
    using assms(1) split_openai_completion [OF assms(2)]
    by (simp add: loadApiProvider_def startsWith_def nth_opt_def str_or_def)
  have gen: "new_OpenAiGenericProvider penv m None =
      Inr \<lparr>modelName = m, apiKey = k, apiHost = str_or (penv ''OPENAI_API_HOST'') DEFAULT_OPENAI_HOST\<rparr>"
    using assms(3,4) by (rule new_generic_with_key)
  show ?thesis
    unfolding chat compl
    by (simp add: new_OpenAiChatCompletionProvider_def new_OpenAiCompletionProvider_def
        gen bind_err_def)
qed

text \<open>The amended claim C4 at the unlisted model name \<^verbatim>\<open>my-model\<close>.\<close>

theorem loadApiProvider_openai_family_witness:
  "loadApiProvider [''OPENAI_API_KEY'' \<mapsto> ''sk-1''] (\<lambda>s. Inr (CustomApiProvider s))
      (PString ''openai:chat:my-model'') =
     ([(Warn, ''Using unknown OpenAI chat model: my-model'')],
      Inr (OpenAiChatCompletionProvider
        \<lparr>modelName = ''my-model'', apiKey = ''sk-1'', apiHost = ''api.openai.com''\<rparr>))
   \<and> loadApiProvider [''OPENAI_API_KEY'' \<mapsto> ''sk-1''] (\<lambda>s. Inr (CustomApiProvider s))
      (PString ''openai:completion:my-model'') =
     ([(Warn, ''Using unknown OpenAI completion model: my-model'')],
      Inr (OpenAiCompletionProvider
        \<lparr>modelName = ''my-model'', apiKey = ''sk-1'', apiHost = ''api.openai.com''\<rparr>))
   \<and> provider_id (OpenAiChatCompletionProvider
        \<lparr>modelName = ''my-model'', apiKey = ''sk-1'', apiHost = ''api.openai.com''\<rparr>) = ''openai:my-model''"
  using loadApiProvider_openai_family [of "''my-model''" "[''OPENAI_API_KEY'' \<mapsto> ''sk-1'']" "''sk-1''"
      "\<lambda>s. Inr (CustomApiProvider s)"]
  by (simp add: OPENAI_CHAT_MODELS_def OPENAI_COMPLETION_MODELS_def str_or_def DEFAULT_OPENAI_HOST_def)

text \<open>
  Claim C4 as stated fails: the fine-tuned model name \<^verbatim>\<open>davinci:ft-acme-2023\<close> is cut at
  its colon, so the adapter's id is \<^verbatim>\<open>openai:davinci\<close>; the empty model name is replaced
  by the family's default model; and without an API key the construction throws, after the
  warning.
\<close>

theorem loadApiProvider_openai_family_counterexample:
  "loadApiProvider [''OPENAI_API_KEY'' \<mapsto> ''sk-1''] (\<lambda>s. Inr (CustomApiProvider s))
      (PString (''openai:completion:'' @ ''davinci:ft-acme-2023'')) =
     ([(Warn, ''Using unknown OpenAI completion model: davinci'')],
      Inr (OpenAiCompletionProvider
        \<lparr>modelName = ''davinci'', apiKey = ''sk-1'', apiHost = ''api.openai.com''\<rparr>))
   \<and> provider_id (OpenAiCompletionProvider
        \<lparr>modelName = ''davinci'', apiKey = ''sk-1'', apiHost = ''api.openai.com''\<rparr>)
       \<noteq> ''openai:'' @ ''davinci:ft-acme-2023''
   \<and> loadApiProvider [''OPENAI_API_KEY'' \<mapsto> ''sk-1''] (\<lambda>s. Inr (CustomApiProvider s))
      (PString (''openai:chat:'' @ '''')) =
     ([], Inr (OpenAiChatCompletionProvider
        \<lparr>modelName = ''gpt-3.5-turbo'', apiKey = ''sk-1'', apiHost = ''api.openai.com''\<rparr>))
   \<and> loadApiProvider Map.empty (\<lambda>s. Inr (CustomApiProvider s))
      (PString (''openai:chat:'' @ ''my-model'')) =
     ([(Warn, ''Using unknown OpenAI chat model: my-model'')],
      Inl (JsError ''Error''
        ''OpenAI API key is not set. Set OPENAI_API_KEY environment variable or pass it as an argument to the constructor.''))"
  by (simp add: loadApiProvider_def startsWith_def nth_opt_def str_or_def
      new_OpenAiChatCompletionProvider_def new_OpenAiCompletionProvider_def
      new_OpenAiGenericProvider_def or_js_def truthy_def bind_err_def
      OPENAI_CHAT_MODELS_def OPENAI_COMPLETION_MODELS_def DEFAULT_OPENAI_HOST_def)

section \<open>Properties of the nested provider resolver\<close>

text \<open>
  Claim C5, as amended. For an assertion whose provider is a configuration object: without
  an identifier, or with the empty one, resolution throws the error of the invariant check,
  without calling the loader: the descriptive
  \<^verbatim>\<open>Invariant failed: Provider object must have an id\<close>, or the bare
  \<^verbatim>\<open>Invariant failed\<close> when \<^verbatim>\<open>NODE_ENV\<close> is \<^verbatim>\<open>production\<close>; with a
  non-empty identifier the outcome is the loader's outcome for that identifier string
  (the object passed along as options is not consulted): when the loader returns an
  adapter, the assertion's provider becomes that very adapter, and when the loader throws,
  resolution throws the same error.
\<close>

theorem resolve_assertion_config_object:
  assumes "aprovider a = POptions opts"
  shows "(opt_id opts = None \<or> opt_id opts = Some [] \<longrightarrow>
           resolve_assertion penv imp a =
             ([], Inl (JsError ''Error''
                (if penv ''NODE_ENV'' = Some ''production'' then ''Invariant failed''
                 else ''Invariant failed: Provider object must have an id''))))
       \<and> (\<forall>i lg p. opt_id opts = Some i \<and> i \<noteq> [] \<and> loadApiProvider penv imp (PString i) = (lg, Inr p) \<longrightarrow>
             resolve_assertion penv imp a = (lg, Inr (a\<lparr>aprovider := PInstance p\<rparr>)))
       \<and> (\<forall>i lg e. opt_id opts = Some i \<and> i \<noteq> [] \<and> loadApiProvider penv imp (PString i) = (lg, Inl e) \<longrightarrow>
             resolve_assertion penv imp a = (lg, Inl e))"
  using assms
  by (auto simp add: resolve_assertion_def invariant_def eff_defs)

text \<open>
  The amended claim C5 on an object without identifier, outside and inside a production
  environment, and on one whose identifier loads, with and without an API key.
\<close>

theorem resolve_assertion_config_object_witness:
  "resolve_assertion Map.empty (\<lambda>s. Inr (CustomApiProvider s))
     \<lparr>atype = ''llm-rubric'', aprovider = POptions \<lparr>opt_id = None, opt_config = []\<rparr>\<rparr>
   = ([], Inl (JsError ''Error'' ''Invariant failed: Provider object must have an id''))
   \<and> resolve_assertion [''NODE_ENV'' \<mapsto> ''production''] (\<lambda>s. Inr (CustomApiProvider s))
     \<lparr>atype = ''llm-rubric'', aprovider = POptions \<lparr>opt_id = Some [], opt_config = []\<rparr>\<rparr>
   = ([], Inl (JsError ''Error'' ''Invariant failed''))
   \<and> resolve_assertion [''OPENAI_API_KEY'' \<mapsto> ''sk-1''] (\<lambda>s. Inr (CustomApiProvider s))
     \<lparr>atype = ''llm-rubric'',
      aprovider = POptions \<lparr>opt_id = Some ''openai:completion:text-davinci-003'', opt_config = []\<rparr>\<rparr>
   = ([], Inr \<lparr>atype = ''llm-rubric'', aprovider = PInstance (OpenAiCompletionProvider
        \<lparr>modelName = ''text-davinci-003'', apiKey = ''sk-1'', apiHost = ''api.openai.com''\<rparr>)\<rparr>)
   \<and> resolve_assertion Map.empty (\<lambda>s. Inr (CustomApiProvider s))
     \<lparr>atype = ''llm-rubric'',
      aprovider = POptions \<lparr>opt_id = Some ''openai:completion:text-davinci-003'', opt_config = []\<rparr>\<rparr>
   = ([], Inl (JsError ''Error''
        ''OpenAI API key is not set. Set OPENAI_API_KEY environment variable or pass it as an argument to the constructor.''))"
proof -
  have load_ok: "loadApiProvider [''OPENAI_API_KEY'' \<mapsto> ''sk-1''] (\<lambda>s. Inr (CustomApiProvider s))
      (PString ''openai:completion:text-davinci-003'')
    = ([], Inr (OpenAiCompletionProvider
        \<lparr>modelName = ''text-davinci-003'', apiKey = ''sk-1'', apiHost = ''api.openai.com''\<rparr>))"
    by (simp add: loadApiProvider_def startsWith_def nth_opt_def str_or_def
      new_OpenAiCompletionProvider_def new_OpenAiGenericProvider_def or_js_def truthy_def
      bind_err_def OPENAI_COMPLETION_MODELS_def DEFAULT_OPENAI_HOST_def)
  have load_fail: "loadApiProvider Map.empty (\<lambda>s. Inr (CustomApiProvider s))
      (PString ''openai:completion:text-davinci-003'')
    = ([], Inl (JsError ''Error''
        ''OpenAI API key is not set. Set OPENAI_API_KEY environment variable or pass it as an argument to the constructor.''))"
    by (simp add: loadApiProvider_def startsWith_def nth_opt_def str_or_def
      new_OpenAiCompletionProvider_def new_OpenAiGenericProvider_def or_js_def truthy_def
      bind_err_def OPENAI_COMPLETION_MODELS_def DEFAULT_OPENAI_HOST_def)
  show ?thesis
    using resolve_assertion_config_object
        [of "\<lparr>atype = ''llm-rubric'', aprovider = POptions \<lparr>opt_id = None, opt_config = []\<rparr>\<rparr>"
            "\<lparr>opt_id = None, opt_config = []\<rparr>" Map.empty "\<lambda>s. Inr (CustomApiProvider s)"]
      resolve_assertion_config_object
        [of "\<lparr>atype = ''llm-rubric'', aprovider = POptions \<lparr>opt_id = Some [], opt_config = []\<rparr>\<rparr>"
            "\<lparr>opt_id = Some [], opt_config = []\<rparr>" "[''NODE_ENV'' \<mapsto> ''production'']"
            "\<lambda>s. Inr (CustomApiProvider s)"]
      resolve_assertion_config_object
        [of "\<lparr>atype = ''llm-rubric'', aprovider = POptions \<lparr>opt_id = Some ''openai:completion:text-davinci-003'', opt_config = []\<rparr>\<rparr>"
            "\<lparr>opt_id = Some ''openai:completion:text-davinci-003'', opt_config = []\<rparr>"
            "[''OPENAI_API_KEY'' \<mapsto> ''sk-1'']" "\<lambda>s. Inr (CustomApiProvider s)"]
      resolve_assertion_config_object
        [of "\<lparr>atype = ''llm-rubric'', aprovider = POptions \<lparr>opt_id = Some ''openai:completion:text-davinci-003'', opt_config = []\<rparr>\<rparr>"
            "\<lparr>opt_id = Some ''openai:completion:text-davinci-003'', opt_config = []\<rparr>"
            Map.empty "\<lambda>s. Inr (CustomApiProvider s)"]
      load_ok load_fail
    by simp
qed

text \<open>
  Claim C5 as stated fails: an object with the identifier \<^verbatim>\<open>openai:foo\<close> carries an
  identifier, and its resolution throws the loader's unknown-model-type error.
\<close>

theorem resolve_assertion_config_object_counterexample:
  "resolve_assertion [''OPENAI_API_KEY'' \<mapsto> ''sk-1''] (\<lambda>s. Inr (CustomApiProvider s))
     \<lparr>atype = ''llm-rubric'',
      aprovider = POptions \<lparr>opt_id = Some ''openai:foo'', opt_config = []\<rparr>\<rparr>
   = ([], Inl (JsError ''Error''
        ''Unknown OpenAI model type: foo. Use one of the following providers: openai:chat:<model name>, openai:completion:<model name>''))"
  by (simp add: resolve_assertion_def invariant_def eff_defs loadApiProvider_def startsWith_def
      nth_opt_def OPENAI_CHAT_MODELS_def OPENAI_COMPLETION_MODELS_def)

text \<open>Whatever the string, the resolver returns a test whose override provider is a string as it is.\<close>

lemma resolve_test_provider_string:
  "resolve_test_provider penv imp (test\<lparr>options := Some \<lparr>oprovider = PString s\<rparr>\<rparr>)
     = ([], Inr (test\<lparr>options := Some \<lparr>oprovider = PString s\<rparr>\<rparr>))"
  by (simp add: resolve_test_provider_def return_eff_def)

text \<open>
  Claim C1 at a test whose override provider is the string \<^verbatim>\<open>openai:chat:gpt-4\<close>: the
  resolver returns the test with the string still in place. At a test whose override
  provider is a function, the function is handed to the loader, which throws. The same
  string as an assertion's provider is replaced by the loaded adapter.
\<close>

theorem resolve_test_provider_inverted:
  "resolve_nested_providers [''OPENAI_API_KEY'' \<mapsto> ''sk-1''] (\<lambda>s. Inr (CustomApiProvider s))
     (Some [\<lparr>description = None, options = Some \<lparr>oprovider = PString ''openai:chat:gpt-4''\<rparr>, assert = None\<rparr>])
   = ([], Inr (Some [\<lparr>description = None, options = Some \<lparr>oprovider = PString ''openai:chat:gpt-4''\<rparr>, assert = None\<rparr>]))
   \<and> resolve_nested_providers [''OPENAI_API_KEY'' \<mapsto> ''sk-1''] (\<lambda>s. Inr (CustomApiProvider s))
     (Some [\<lparr>description = None, options = Some \<lparr>oprovider = PFunction ''myProvider''\<rparr>, assert = None\<rparr>])
   = ([], Inl (JsError ''TypeError'' ''providerPath?.startsWith is not a function''))
   \<and> resolve_assertion [''OPENAI_API_KEY'' \<mapsto> ''sk-1''] (\<lambda>s. Inr (CustomApiProvider s))
       \<lparr>atype = ''llm-rubric'', aprovider = PString ''openai:chat:gpt-4''\<rparr>
   = ([], Inr \<lparr>atype = ''llm-rubric'', aprovider = PInstance (OpenAiChatCompletionProvider
        \<lparr>modelName = ''gpt-4'', apiKey = ''sk-1'', apiHost = ''api.openai.com''\<rparr>)\<rparr>)"
  by (simp add: resolve_nested_providers_def resolve_test_def resolve_test_provider_def
      resolve_assertion_def eff_defs loadApiProvider_def startsWith_def nth_opt_def str_or_def
      new_OpenAiChatCompletionProvider_def new_OpenAiGenericProvider_def or_js_def truthy_def
      bind_err_def OPENAI_CHAT_MODELS_def DEFAULT_OPENAI_HOST_def)

section \<open>Properties of evaluate\<close>

text \<open>
  Claim C2, as amended. When the steps before the engine succeed and the engine returns a
  result, evaluate runs the output writing, the persisting of the latest results and the
  telemetry flush in this order; it returns the engine's result unchanged when all of them
  succeed, and throws the error of the first one that fails, in which case the result is
  not returned.
\<close>

theorem evaluate_after_engine:
  assumes "loadApiProviders ext (providers suite) (env suite) = Inr ps"
    and "readTests ext (tests suite) = Inr ts"
    and "readFilters ext (case nunjucksFilters suite of None \<Rightarrow> [] | Some fs \<Rightarrow> fs) = Inr filters"
    and "resolve_nested_providers penv (import_module ext) ts = (lg, Inr ts')"
    and "(if cache opts = Some False then disableCache ext else Inr ()) = Inr ()"
    and "maybeShowNotice ext = Inr ()"
    and "doEvaluate ext
           \<lparr>spread = suite, loaded_providers = ps, loaded_tests = ts', loaded_filters = filters,
            normalized_prompts = normalize_prompts (prompts suite)\<rparr> opts = Inr ret"
  shows "evaluate ext penv suite opts =
           (lg,
            bind_err (write_outputs ext suite ret) (\<lambda>_.
            bind_err (if writeLatestResults suite then ext_writeLatestResults ext ret suite else Inr ()) (\<lambda>_.
            bind_err (telemetry_send ext) (\<lambda>_. Inr ret))))"
  using assms
  by (simp add: evaluate_def eff_defs bind_err_def Let_def split: sum.splits)

text \<open>The amended claim C2 on collaborators that all succeed: the result 42 of the engine is returned.\<close>

theorem evaluate_after_engine_witness:
  "evaluate (example_externals (Inr ())) Map.empty example_suite \<lparr>cache = None, maxConcurrency = None\<rparr>
     = ([], Inr 42)"
  using evaluate_after_engine [of "example_externals (Inr ())" example_suite "[]" None "[]"
      Map.empty "[]" None "\<lparr>cache = None, maxConcurrency = None\<rparr>" 42]
  by (simp add: example_externals_def example_suite_def resolve_nested_providers_def eff_defs
      write_outputs_def bind_err_def)

text \<open>
  Claim C2 as stated fails: the engine returns 42, writing the output file fails with a
  permission error, and evaluate throws that error.
\<close>

theorem evaluate_after_engine_counterexample:
  "doEvaluate (example_externals (Inl (JsError ''Error'' ''EACCES: permission denied'')))
      \<lparr>spread = example_suite, loaded_providers = [], loaded_tests = None, loaded_filters = [],
       normalized_prompts = [\<lparr>raw = ''Say hi'', display = ''Say hi''\<rparr>]\<rparr>
      \<lparr>cache = None, maxConcurrency = None\<rparr> = Inr 42
   \<and> evaluate (example_externals (Inl (JsError ''Error'' ''EACCES: permission denied'')))
        Map.empty example_suite \<lparr>cache = None, maxConcurrency = None\<rparr>
      = ([], Inl (JsError ''Error'' ''EACCES: permission denied''))"
  by (simp add: evaluate_def eff_defs example_externals_def example_suite_def
      resolve_nested_providers_def write_outputs_def)

section \<open>Properties of the adapters\<close>

text \<open>
  The payload fields as the code computes them: both variants read \<^verbatim>\<open>OPENAI_MAX_TOKENS\<close>
  with the default 1024; the completion variant reads \<^verbatim>\<open>OPENAI_TEMPERATURE\<close> and the chat
  variant \<^verbatim>\<open>OPENAI_MAX_TEMPERATURE\<close>, with the default 0.
\<close>

lemma request_payload_fields:
  "get_prop (Val (completion_body penv self p)) (Name ''max_tokens'')
     = Inr (Val (env_or (penv ''OPENAI_MAX_TOKENS'') (JNum 1024)))
   \<and> get_prop (Val (chat_body penv self msgs)) (Name ''max_tokens'')
     = Inr (Val (env_or (penv ''OPENAI_MAX_TOKENS'') (JNum 1024)))
   \<and> get_prop (Val (completion_body penv self p)) (Name ''temperature'')
     = Inr (Val (env_or (penv ''OPENAI_TEMPERATURE'') (JNum 0)))
   \<and> get_prop (Val (chat_body penv self msgs)) (Name ''temperature'')
     = Inr (Val (env_or (penv ''OPENAI_MAX_TEMPERATURE'') (JNum 0)))"
  by (simp add: get_prop_def key_text_def completion_body_def chat_body_def)

text \<open>
  Claim C3 with \<^verbatim>\<open>OPENAI_TEMPERATURE\<close> set to 0.7: the completion payload carries 0.7, the
  chat payload carries the default 0; the chat payload follows \<^verbatim>\<open>OPENAI_MAX_TEMPERATURE\<close>.
\<close>

theorem chat_temperature_variable:
  "get_prop (Val (completion_body [''OPENAI_TEMPERATURE'' \<mapsto> ''0.7''] example_provider ''Say hi''))
      (Name ''temperature'') = Inr (Val (JStr ''0.7''))
   \<and> get_prop (Val (chat_body [''OPENAI_TEMPERATURE'' \<mapsto> ''0.7''] example_provider
        (JArr [JObj [(''role'', JStr ''user''), (''content'', JStr ''Say hi'')]])))
      (Name ''temperature'') = Inr (Val (JNum 0))
   \<and> get_prop (Val (chat_body [''OPENAI_MAX_TEMPERATURE'' \<mapsto> ''0.7''] example_provider
        (JArr [JObj [(''role'', JStr ''user''), (''content'', JStr ''Say hi'')]])))
      (Name ''temperature'') = Inr (Val (JStr ''0.7''))"
  by (simp add: get_prop_def key_text_def completion_body_def chat_body_def env_or_def)

lemma chat_messages_total: "\<exists>msgs. chat_messages parse p = Inr msgs"
  by (cases "parse p") (simp_all add: chat_messages_def try_catch_def)

lemma chat_send_log: "\<forall>entry \<in> set (fst (chat_send penv fetch self msgs)). fst entry = Debug"
  by (simp add: chat_send_def Let_def split: sum.splits)

lemma example_parse_plain: "example_parse ''Say hi'' = Inl (JsError ''SyntaxError'' ''Unexpected token'')"
  by (simp add: example_parse_def example_turns_def quote_string_def)

lemma example_parse_number: "example_parse ''42'' = Inr (JNum 42)"
  by (simp add: example_parse_def example_turns_def quote_string_def)

lemma completion_callApi_cases:
  "completion_callApi penv fetch self p =
     (case fetch (openai_request self ''/v1/completions'' (completion_body penv self p)) of
        Inl err \<Rightarrow>
          ([(Debug, ''Calling OpenAI API: '' @ JSON_stringify (completion_body penv self p))],
           Inr \<lparr>error = Some (''API call error: '' @ String_err err), output_val = None, tokenUsage = None\<rparr>)
      | Inr data \<Rightarrow>
          ([(Debug, ''Calling OpenAI API: '' @ JSON_stringify (completion_body penv self p)),
            (Debug, [CHR 0x09] @ ''OpenAI API response: '' @ JSON_stringify data)],
           (case completion_result data of
              Inr r \<Rightarrow> Inr r
            | Inl err \<Rightarrow>
                Inr \<lparr>error = Some (''API response error: '' @ String_err err @ '': '' @ JSON_stringify data),
                     output_val = None, tokenUsage = None\<rparr>)))"
  by (simp add: completion_callApi_def Let_def try_catch_def split: sum.splits)

lemma chat_send_cases:
  "chat_send penv fetch self msgs =
     (case fetch (openai_request self ''/v1/chat/completions'' (chat_body penv self msgs)) of
        Inl err \<Rightarrow>
          ([(Debug, ''Calling OpenAI API: '' @ JSON_stringify (chat_body penv self msgs))],
           Inr \<lparr>error = Some (''API call error: '' @ String_err err), output_val = None, tokenUsage = None\<rparr>)
      | Inr data \<Rightarrow>
          ([(Debug, ''Calling OpenAI API: '' @ JSON_stringify (chat_body penv self msgs)),
            (Debug, [CHR 0x09] @ ''OpenAI API response: '' @ JSON_stringify data)],
           (case chat_result data of
              Inr r \<Rightarrow> Inr r
            | Inl err \<Rightarrow>
                Inr \<lparr>error = Some (''API response error: '' @ String_err err @ '': '' @ JSON_stringify data),
                     output_val = None, tokenUsage = None\<rparr>)))"
  by (simp add: chat_send_def Let_def try_catch_def split: sum.splits)

lemma chat_callApi_send:
  "chat_messages parse p = Inr msgs \<Longrightarrow> chat_callApi penv parse fetch self p = chat_send penv fetch self msgs"
  by (simp add: chat_callApi_def eff_defs)

lemma completion_result_empty_choices:
  "completion_result empty_choices =
     Inl (JsError ''TypeError'' (''Cannot read properties of undefined (reading '' @ [CHR 0x27] @ ''text'' @ [CHR 0x27] @ '')''))"
  by (simp add: completion_result_def empty_choices_def get_prop_def key_text_def bind_err_def string_of_nat_0)

lemma chat_result_empty_choices:
  "chat_result empty_choices =
     Inl (JsError ''TypeError'' (''Cannot read properties of undefined (reading '' @ [CHR 0x27] @ ''message'' @ [CHR 0x27] @ '')''))"
  by (simp add: chat_result_def empty_choices_def get_prop_def key_text_def bind_err_def string_of_nat_0)

text \<open>
  Claim C7, as amended. When \<^verbatim>\<open>JSON.parse\<close> accepts the prompt, whatever value it yields
  (a list of turns or not), the chat variant sends that value as the message list; when
  \<^verbatim>\<open>JSON.parse\<close> throws, it sends exactly one user turn whose content is the prompt. The
  message list is the \<^verbatim>\<open>messages\<close> field of the payload of the one request made, and the
  call logs nothing at warning or error level.
\<close>

theorem chat_callApi_messages:
  "(\<forall>v. parse p = Inr v \<longrightarrow>
       chat_callApi penv parse fetch self p = chat_send penv fetch self v)
   \<and> (\<forall>e. parse p = Inl e \<longrightarrow>
       chat_callApi penv parse fetch self p =
         chat_send penv fetch self (JArr [JObj [(''role'', JStr ''user''), (''content'', JStr p)]]))
   \<and> get_prop (Val (chat_body penv self msgs)) (Name ''messages'') = Inr (Val msgs)
   \<and> (fetch (openai_request self ''/v1/chat/completions'' (chat_body penv self msgs))
        = fetch' (openai_request self ''/v1/chat/completions'' (chat_body penv self msgs)) \<longrightarrow>
       chat_send penv fetch self msgs = chat_send penv fetch' self msgs)
   \<and> (\<forall>entry \<in> set (fst (chat_callApi penv parse fetch self p)). fst entry \<noteq> Warn \<and> fst entry \<noteq> Error)"
proof -
  have a: "parse p = Inr v \<Longrightarrow> chat_callApi penv parse fetch self p = chat_send penv fetch self v" for v
    by (simp add: chat_callApi_def chat_messages_def try_catch_def eff_defs)
  have b: "parse p = Inl e \<Longrightarrow> chat_callApi penv parse fetch self p =
         chat_send penv fetch self (JArr [JObj [(''role'', JStr ''user''), (''content'', JStr p)]])" for e
    by (simp add: chat_callApi_def chat_messages_def try_catch_def eff_defs)
  have c: "get_prop (Val (chat_body penv self msgs)) (Name ''messages'') = Inr (Val msgs)"
    by (simp add: get_prop_def key_text_def chat_body_def)
  have d: "fetch (openai_request self ''/v1/chat/completions'' (chat_body penv self msgs))
        = fetch' (openai_request self ''/v1/chat/completions'' (chat_body penv self msgs)) \<Longrightarrow>
       chat_send penv fetch self msgs = chat_send penv fetch' self msgs"
    by (simp add: chat_send_def)
  have e: "\<forall>entry \<in> set (fst (chat_callApi penv parse fetch self p)). fst entry \<noteq> Warn \<and> fst entry \<noteq> Error"
  proof (cases "parse p")
    case (Inl err)
    show ?thesis using chat_send_log by (simp add: b [OF Inl])
  next
    case (Inr v)
    show ?thesis using chat_send_log by (simp add: a [OF Inr])
  qed
  show ?thesis using a b c d e by blast
qed

text \<open>The amended claim C7 on a prompt that is serialised turn data and on the plain prompt \<^verbatim>\<open>Say hi\<close>.\<close>

theorem chat_callApi_messages_witness:
  "chat_callApi Map.empty example_parse (\<lambda>req. Inl (JsError ''Error'' ''Request timed out''))
       example_provider (JSON_stringify example_turns)
     = chat_send Map.empty (\<lambda>req. Inl (JsError ''Error'' ''Request timed out'')) example_provider example_turns
   \<and> chat_callApi Map.empty example_parse (\<lambda>req. Inl (JsError ''Error'' ''Request timed out''))
       example_provider ''Say hi''
     = chat_send Map.empty (\<lambda>req. Inl (JsError ''Error'' ''Request timed out'')) example_provider
         (JArr [JObj [(''role'', JStr ''user''), (''content'', JStr ''Say hi'')]])
   \<and> chat_send Map.empty (\<lambda>req. Inl (JsError ''Error'' ''Request timed out'')) example_provider example_turns
     = chat_send Map.empty
         (\<lambda>req. if url req = ''https://api.openai.com/v1/chat/completions''
                 then Inl (JsError ''Error'' ''Request timed out'') else Inr JNull)
         example_provider example_turns
   \<and> length (fst (chat_callApi Map.empty example_parse (\<lambda>req. Inl (JsError ''Error'' ''Request timed out''))
       example_provider ''Say hi'')) = 1
   \<and> fst (hd (fst (chat_callApi Map.empty example_parse (\<lambda>req. Inl (JsError ''Error'' ''Request timed out''))
       example_provider ''Say hi''))) \<noteq> Warn"
proof -
  have len: "length (fst (chat_send Map.empty (\<lambda>req. Inl (JsError ''Error'' ''Request timed out'')) example_provider
         (JArr [JObj [(''role'', JStr ''user''), (''content'', JStr ''Say hi'')]]))) = 1"
    by (simp add: chat_send_def)
  have ok: "example_parse (JSON_stringify example_turns) = Inr example_turns"
    by (simp add: example_parse_def)
  have req: "url (openai_request example_provider ''/v1/chat/completions''
               (chat_body Map.empty example_provider example_turns))
             = ''https://api.openai.com/v1/chat/completions''"
    by (simp add: openai_request_def example_provider_def)
  show ?thesis
    using chat_callApi_messages [of example_parse "JSON_stringify example_turns" Map.empty
        "\<lambda>req. Inl (JsError ''Error'' ''Request timed out'')" example_provider example_turns
        "\<lambda>req. if url req = ''https://api.openai.com/v1/chat/completions''
                 then Inl (JsError ''Error'' ''Request timed out'') else Inr JNull"]
      chat_callApi_messages [of example_parse "''Say hi''" Map.empty
        "\<lambda>req. Inl (JsError ''Error'' ''Request timed out'')" example_provider example_turns
        "\<lambda>req. Inl (JsError ''Error'' ''Request timed out'')"]
      ok example_parse_plain len req
    by (cases "fst (chat_send Map.empty (\<lambda>req. Inl (JsError ''Error'' ''Request timed out'')) example_provider
         (JArr [JObj [(''role'', JStr ''user''), (''content'', JStr ''Say hi'')]]))") auto
qed

text \<open>
  Claim C7 as stated fails: the prompt \<^verbatim>\<open>42\<close> is no serialised turn data, yet it parses, and
  the message list sent is the number 42, not one user turn with the content \<^verbatim>\<open>42\<close>.
\<close>

theorem chat_callApi_messages_counterexample:
  "example_parse ''42'' = Inr (JNum 42)
   \<and> chat_messages example_parse ''42'' = Inr (JNum 42)
   \<and> chat_messages example_parse ''42''
       \<noteq> Inr (JArr [JObj [(''role'', JStr ''user''), (''content'', JStr ''42'')]])
   \<and> chat_callApi Map.empty example_parse (\<lambda>req. Inl (JsError ''Error'' ''Request timed out''))
       example_provider ''42''
     = chat_send Map.empty (\<lambda>req. Inl (JsError ''Error'' ''Request timed out'')) example_provider (JNum 42)"
  by (simp add: example_parse_number chat_messages_def try_catch_def chat_callApi_def eff_defs)

text \<open>
  Claim C8, as amended. Both variants always return a result and never throw. A transport
  failure is returned as a failure whose message is \<^verbatim>\<open>API call error: \<close> followed by the
  error's text. A response body on which reading the expected fields throws is returned as
  a failure whose message holds the thrown error's text and the serialised body.
\<close>

theorem callApi_never_throws:
  "(\<exists>r. snd (completion_callApi penv fetch self p) = Inr r)
   \<and> (\<exists>r. snd (chat_callApi penv parse fetch self p) = Inr r)
   \<and> (\<forall>err. fetch (openai_request self ''/v1/completions'' (completion_body penv self p)) = Inl err \<longrightarrow>
        snd (completion_callApi penv fetch self p) =
          Inr \<lparr>error = Some (''API call error: '' @ String_err err), output_val = None, tokenUsage = None\<rparr>)
   \<and> (\<forall>data err.
        fetch (openai_request self ''/v1/completions'' (completion_body penv self p)) = Inr data
        \<and> completion_result data = Inl err \<longrightarrow>
        snd (completion_callApi penv fetch self p) =
          Inr \<lparr>error = Some (''API response error: '' @ String_err err @ '': '' @ JSON_stringify data),
               output_val = None, tokenUsage = None\<rparr>)
   \<and> (\<forall>msgs err.
        chat_messages parse p = Inr msgs
        \<and> fetch (openai_request self ''/v1/chat/completions'' (chat_body penv self msgs)) = Inl err \<longrightarrow>
        snd (chat_callApi penv parse fetch self p) =
          Inr \<lparr>error = Some (''API call error: '' @ String_err err), output_val = None, tokenUsage = None\<rparr>)
   \<and> (\<forall>msgs data err.
        chat_messages parse p = Inr msgs
        \<and> fetch (openai_request self ''/v1/chat/completions'' (chat_body penv self msgs)) = Inr data
        \<and> chat_result data = Inl err \<longrightarrow>
        snd (chat_callApi penv parse fetch self p) =
          Inr \<lparr>error = Some (''API response error: '' @ String_err err @ '': '' @ JSON_stringify data),
               output_val = None, tokenUsage = None\<rparr>)"
proof -
  have c1: "\<exists>r. snd (completion_callApi penv fetch self p) = Inr r"
    by (simp add: completion_callApi_cases split: sum.splits)
  have s1: "\<exists>r. snd (chat_send penv fetch self msgs) = Inr r" for msgs
    by (simp add: chat_send_cases split: sum.splits)
  have c2: "\<exists>r. snd (chat_callApi penv parse fetch self p) = Inr r"
    using chat_messages_total [of parse p] s1 by (auto simp add: chat_callApi_send)
  have c3: "fetch (openai_request self ''/v1/completions'' (completion_body penv self p)) = Inl err \<Longrightarrow>
        snd (completion_callApi penv fetch self p) =
          Inr \<lparr>error = Some (''API call error: '' @ String_err err), output_val = None, tokenUsage = None\<rparr>" for err
    by (simp add: completion_callApi_cases)
  have c4: "fetch (openai_request self ''/v1/completions'' (completion_body penv self p)) = Inr data
        \<Longrightarrow> completion_result data = Inl err \<Longrightarrow>
        snd (completion_callApi penv fetch self p) =
          Inr \<lparr>error = Some (''API response error: '' @ String_err err @ '': '' @ JSON_stringify data),
               output_val = None, tokenUsage = None\<rparr>" for data err
    by (simp add: completion_callApi_cases)
  have c5: "chat_messages parse p = Inr msgs
        \<Longrightarrow> fetch (openai_request self ''/v1/chat/completions'' (chat_body penv self msgs)) = Inl err \<Longrightarrow>
        snd (chat_callApi penv parse fetch self p) =
          Inr \<lparr>error = Some (''API call error: '' @ String_err err), output_val = None, tokenUsage = None\<rparr>" for msgs err
    by (simp add: chat_callApi_send chat_send_cases)
  have c6: "chat_messages parse p = Inr msgs
        \<Longrightarrow> fetch (openai_request self ''/v1/chat/completions'' (chat_body penv self msgs)) = Inr data
        \<Longrightarrow> chat_result data = Inl err \<Longrightarrow>
        snd (chat_callApi penv parse fetch self p) =
          Inr \<lparr>error = Some (''API response error: '' @ String_err err @ '': '' @ JSON_stringify data),
               output_val = None, tokenUsage = None\<rparr>" for msgs data err
    by (simp add: chat_callApi_send chat_send_cases)
  show ?thesis using c1 c2 c3 c4 c5 c6 by blast
qed

text \<open>The amended claim C8 on a timed-out request and on a body with an empty choice list.\<close>

theorem callApi_never_throws_witness:
  "snd (completion_callApi Map.empty (\<lambda>req. Inl (JsError ''Error'' ''Request timed out'')) example_provider ''Say hi'')
     = Inr \<lparr>error = Some ''API call error: Error: Request timed out'', output_val = None, tokenUsage = None\<rparr>
   \<and> snd (chat_callApi Map.empty example_parse (\<lambda>req. Inl (JsError ''Error'' ''Request timed out'')) example_provider ''Say hi'')
     = Inr \<lparr>error = Some ''API call error: Error: Request timed out'', output_val = None, tokenUsage = None\<rparr>
   \<and> snd (completion_callApi Map.empty (\<lambda>req. Inr empty_choices) example_provider ''Say hi'')
     = Inr \<lparr>error = Some (''API response error: TypeError: Cannot read properties of undefined (reading ''
                @ [CHR 0x27] @ ''text'' @ [CHR 0x27] @ ''): '' @ JSON_stringify empty_choices),
            output_val = None, tokenUsage = None\<rparr>
   \<and> snd (chat_callApi Map.empty example_parse (\<lambda>req. Inr empty_choices) example_provider ''Say hi'')
     = Inr \<lparr>error = Some (''API response error: TypeError: Cannot read properties of undefined (reading ''
                @ [CHR 0x27] @ ''message'' @ [CHR 0x27] @ ''): '' @ JSON_stringify empty_choices),
            output_val = None, tokenUsage = None\<rparr>"
proof -
  have msgs: "chat_messages example_parse ''Say hi'' =
      Inr (JArr [JObj [(''role'', JStr ''user''), (''content'', JStr ''Say hi'')]])"
    by (simp add: chat_messages_def try_catch_def example_parse_plain)
  show ?thesis
    using callApi_never_throws [of Map.empty "\<lambda>req. Inl (JsError ''Error'' ''Request timed out'')"
        example_provider "''Say hi''" example_parse]
      callApi_never_throws [of Map.empty "\<lambda>req. Inr empty_choices" example_provider "''Say hi''" example_parse]
      msgs completion_result_empty_choices chat_result_empty_choices
    by (simp add: String_err_def)
qed

text \<open>
  Claim C8 as stated fails: a body whose first choice has no text and whose usage has no
  counts does not have the expected shape, but reading it throws nothing, and the
  completion variant returns it as a success with undefined output and counts.
\<close>

theorem callApi_never_throws_counterexample:
  "completion_result missing_text
     = Inr \<lparr>error = None, output_val = Some Undefined,
            tokenUsage = Some \<lparr>total = Undefined, prompt = Undefined, completion = Undefined\<rparr>\<rparr>
   \<and> snd (completion_callApi Map.empty (\<lambda>req. Inr missing_text) example_provider ''Say hi'')
     = Inr \<lparr>error = None, output_val = Some Undefined,
            tokenUsage = Some \<lparr>total = Undefined, prompt = Undefined, completion = Undefined\<rparr>\<rparr>"
  by (simp add: completion_callApi_cases completion_result_def tokenUsage_of_def missing_text_def
      get_prop_def key_text_def bind_err_def string_of_nat_0)

text \<open>
  Claim C9, as amended. Every result of either variant has the error key alone, or the
  output and token-usage keys alone, never both kinds and never neither; on the success
  side the output and the counts are the values read from the body at
  \<^verbatim>\<open>choices[0].text\<close> (chat: \<^verbatim>\<open>choices[0].message.content\<close>) and \<^verbatim>\<open>usage\<close>, whatever
  they are, \<^verbatim>\<open>undefined\<close> included.
\<close>

theorem callApi_result_sides:
  "(\<exists>r. snd (completion_callApi penv fetch self p) = Inr r \<and>
      (case error r of
         Some msg \<Rightarrow> output_val r = None \<and> tokenUsage r = None
       | None \<Rightarrow>
          (\<exists>data out u.
             fetch (openai_request self ''/v1/completions'' (completion_body penv self p)) = Inr data
             \<and> get_path (Val data) [Name ''choices'', Index 0, Name ''text''] = Inr out
             \<and> tokenUsage_of data = Inr u
             \<and> output_val r = Some out \<and> tokenUsage r = Some u)))
   \<and> (\<exists>r msgs. snd (chat_callApi penv parse fetch self p) = Inr r \<and> chat_messages parse p = Inr msgs \<and>
      (case error r of
         Some msg \<Rightarrow> output_val r = None \<and> tokenUsage r = None
       | None \<Rightarrow>
          (\<exists>data out u.
             fetch (openai_request self ''/v1/chat/completions'' (chat_body penv self msgs)) = Inr data
             \<and> get_path (Val data) [Name ''choices'', Index 0, Name ''message'', Name ''content''] = Inr out
             \<and> tokenUsage_of data = Inr u
             \<and> output_val r = Some out \<and> tokenUsage r = Some u)))"
proof -
  have compl: "completion_result data = Inr r \<Longrightarrow>
      error r = None \<and> (\<exists>out u. get_path (Val data) [Name ''choices'', Index 0, Name ''text''] = Inr out
             \<and> tokenUsage_of data = Inr u \<and> output_val r = Some out \<and> tokenUsage r = Some u)" for data r
    by (auto simp add: completion_result_def bind_err_def split: sum.splits)
  have chat: "chat_result data = Inr r \<Longrightarrow>
      error r = None \<and> (\<exists>out u. get_path (Val data) [Name ''choices'', Index 0, Name ''message'', Name ''content''] = Inr out
             \<and> tokenUsage_of data = Inr u \<and> output_val r = Some out \<and> tokenUsage r = Some u)" for data r
    by (auto simp add: chat_result_def bind_err_def split: sum.splits)
  have first: "\<exists>r. snd (completion_callApi penv fetch self p) = Inr r \<and>
      (case error r of
         Some msg \<Rightarrow> output_val r = None \<and> tokenUsage r = None
       | None \<Rightarrow>
          (\<exists>data out u.
             fetch (openai_request self ''/v1/completions'' (completion_body penv self p)) = Inr data
             \<and> get_path (Val data) [Name ''choices'', Index 0, Name ''text''] = Inr out
             \<and> tokenUsage_of data = Inr u
             \<and> output_val r = Some out \<and> tokenUsage r = Some u))"
  proof (cases "fetch (openai_request self ''/v1/completions'' (completion_body penv self p))")
    case (Inl err)
    then show ?thesis by (simp add: completion_callApi_cases)
  next
    case (Inr data)
    show ?thesis
    proof (cases "completion_result data")
      case (Inl err)
      with Inr show ?thesis by (simp add: completion_callApi_cases)
    next
      case r: (Inr r)
      with Inr compl [OF r] show ?thesis by (simp add: completion_callApi_cases)
    qed
  qed
  obtain msgs where msgs: "chat_messages parse p = Inr msgs"
    using chat_messages_total by blast
  have second: "\<exists>r. snd (chat_send penv fetch self msgs) = Inr r \<and>
      (case error r of
         Some msg \<Rightarrow> output_val r = None \<and> tokenUsage r = None
       | None \<Rightarrow>
          (\<exists>data out u.
             fetch (openai_request self ''/v1/chat/completions'' (chat_body penv self msgs)) = Inr data
             \<and> get_path (Val data) [Name ''choices'', Index 0, Name ''message'', Name ''content''] = Inr out
             \<and> tokenUsage_of data = Inr u
             \<and> output_val r = Some out \<and> tokenUsage r = Some u))"
  proof (cases "fetch (openai_request self ''/v1/chat/completions'' (chat_body penv self msgs))")
    case (Inl err)
    then show ?thesis by (simp add: chat_send_cases)
  next
    case (Inr data)
    show ?thesis
    proof (cases "chat_result data")
      case (Inl err)
      with Inr show ?thesis by (simp add: chat_send_cases)
    next
      case r: (Inr r)
      with Inr chat [OF r] show ?thesis by (simp add: chat_send_cases)
    qed
  qed
  from second msgs have "\<exists>r msgs. snd (chat_callApi penv parse fetch self p) = Inr r \<and> chat_messages parse p = Inr msgs \<and>
      (case error r of
         Some msg \<Rightarrow> output_val r = None \<and> tokenUsage r = None
       | None \<Rightarrow>
          (\<exists>data out u.
             fetch (openai_request self ''/v1/chat/completions'' (chat_body penv self msgs)) = Inr data
             \<and> get_path (Val data) [Name ''choices'', Index 0, Name ''message'', Name ''content''] = Inr out
             \<and> tokenUsage_of data = Inr u
             \<and> output_val r = Some out \<and> tokenUsage r = Some u))"
    by (auto simp add: chat_callApi_send [OF msgs])
  with first show ?thesis by blast
qed

text \<open>
  Claim C9 as stated fails: on a body whose first choice has a message without content,
  the chat variant returns a result with no error and an undefined output, so neither
  side is populated.
\<close>

theorem callApi_result_sides_counterexample:
  "snd (chat_callApi Map.empty example_parse (\<lambda>req. Inr missing_content) example_provider ''Say hi'')
     = Inr \<lparr>error = None, output_val = Some Undefined,
            tokenUsage = Some \<lparr>total = Undefined, prompt = Undefined, completion = Undefined\<rparr>\<rparr>"
proof -
  have msgs: "chat_messages example_parse ''Say hi'' =
      Inr (JArr [JObj [(''role'', JStr ''user''), (''content'', JStr ''Say hi'')]])"
    by (simp add: chat_messages_def try_catch_def example_parse_plain)
  show ?thesis
    by (simp add: chat_callApi_send [OF msgs] chat_send_cases chat_result_def tokenUsage_of_def
        missing_content_def get_prop_def key_text_def bind_err_def string_of_nat_0)
qed

end
